theory Spec2Isabelle
  imports Complex_Main
begin

section \<open>The geometry kernel of local_carla_api.py\<close>

text \<open>
  A shallow embedding of the Vector3D, Rotation, Quaternion, Transform and BoundingBox
  classes of \<^verbatim>\<open>local_carla_api.py\<close>. Python floats are modelled as real numbers:
  the rounding of each arithmetic operation, overflow, infinities and NaN are outside the
  model, so the arithmetic below is exact. The one explicit conversion of the source, to
  32-bit floats, is modelled as a rounding of real numbers. Angles are degrees where the
  source has degrees.
\<close>

subsection \<open>Errors\<close>

datatype error = ZeroDivisionError | LinAlgError

subsection \<open>Angle conversion and the inverse tangent of two arguments\<close>

definition radians :: "real \<Rightarrow> real" where
  "radians d = d * pi / 180"

definition degrees :: "real \<Rightarrow> real" where
  "degrees r = r * 180 / pi"

definition RAD_TO_DEG :: real where
  "RAD_TO_DEG = 180 / pi"

text \<open>
  \<^verbatim>\<open>math.atan2(y, x)\<close> and \<^verbatim>\<open>np.arctan2(y, x)\<close>: the angle of the point \<open>(x, y)\<close> in
  \<open>(-pi, pi]\<close>, by quadrant as the C library documents it (a zero is the positive zero).
\<close>

definition atan2 :: "real \<Rightarrow> real \<Rightarrow> real" where
  "atan2 y x =
     (if 0 < x then arctan (y / x)
      else if x < 0 then (if 0 \<le> y then arctan (y / x) + pi else arctan (y / x) - pi)
      else if 0 < y then pi / 2
      else if y < 0 then - (pi / 2)
      else 0)"

text \<open>\<^verbatim>\<open>np.clip(a, lo, hi)\<close>.\<close>

definition clip :: "real \<Rightarrow> real \<Rightarrow> real \<Rightarrow> real" where
  "clip a lo hi = min (max a lo) hi"

subsection \<open>Vector2D\<close>

record Vector2D =
  x2 :: real
  y2 :: real

definition Vector2D_sub :: "Vector2D \<Rightarrow> Vector2D \<Rightarrow> Vector2D" where
  "Vector2D_sub a b = \<lparr>x2 = x2 a - x2 b, y2 = y2 a - y2 b\<rparr>"

text \<open>\<^verbatim>\<open>np.linalg.norm\<close> of the two components.\<close>

definition Vector2D_magnitude :: "Vector2D \<Rightarrow> real" where
  "Vector2D_magnitude a = sqrt ((x2 a)\<^sup>2 + (y2 a)\<^sup>2)"

definition get_angle :: "Vector2D \<Rightarrow> Vector2D \<Rightarrow> real" where
  "get_angle a other =
     (let angle = atan2 (y2 a) (x2 a) - atan2 (y2 other) (x2 other)
      in if angle > pi then angle - 2 * pi
         else if angle < - pi then angle + 2 * pi
         else angle)"

subsection \<open>Vector3D and its subclass Location\<close>

text \<open>
  \<open>Location\<close> inherits everything from \<open>Vector3D\<close>; the two differ in their class
  only, which \<^verbatim>\<open>__eq__\<close> and \<^verbatim>\<open>__ne__\<close> compare (\<^verbatim>\<open>type(other) == type(self)\<close>) before
  the components. With the class as a field, HOL equality of two values is \<^verbatim>\<open>__eq__\<close>
  and its negation is \<^verbatim>\<open>__ne__\<close>.
\<close>

datatype vector_class = Vector3D_class | Location_class

record Vector3D =
  cls :: vector_class
  vx :: real
  vy :: real
  vz :: real

definition Vector3D_init :: "real \<Rightarrow> real \<Rightarrow> real \<Rightarrow> Vector3D" where
  "Vector3D_init a b c = \<lparr>cls = Vector3D_class, vx = a, vy = b, vz = c\<rparr>"

definition Location_init :: "real \<Rightarrow> real \<Rightarrow> real \<Rightarrow> Vector3D" where
  "Location_init a b c = \<lparr>cls = Location_class, vx = a, vy = b, vz = c\<rparr>"

text \<open>\<^verbatim>\<open>copy\<close> builds \<^verbatim>\<open>type(self)(self.x, self.y, self.z)\<close>.\<close>

definition Vector3D_copy :: "Vector3D \<Rightarrow> Vector3D" where
  "Vector3D_copy v = \<lparr>cls = cls v, vx = vx v, vy = vy v, vz = vz v\<rparr>"

definition as_vector_2D :: "Vector3D \<Rightarrow> Vector2D" where
  "as_vector_2D v = \<lparr>x2 = vx v, y2 = vy v\<rparr>"

definition as_numpy_array :: "Vector3D \<Rightarrow> real \<times> real \<times> real" where
  "as_numpy_array v = (vx v, vy v, vz v)"

definition rotate :: "Vector3D \<Rightarrow> real \<Rightarrow> Vector3D" where
  "rotate v angle =
     (let x' = cos (radians angle) * vx v - sin (radians angle) * vy v;
          y' = sin (radians angle) * vx v - cos (radians angle) * vy v
      in \<lparr>cls = cls v, vx = x', vy = y', vz = vz v\<rparr>)"

subsection \<open>Rotation\<close>

record Rotation =
  pitch :: real
  yaw :: real
  roll :: real

definition Rotation_init :: "real \<Rightarrow> real \<Rightarrow> real \<Rightarrow> Rotation" where
  "Rotation_init p yw r = \<lparr>pitch = p, yaw = yw, roll = r\<rparr>"

definition Rotation_copy :: "Rotation \<Rightarrow> Rotation" where
  "Rotation_copy r = \<lparr>pitch = pitch r, yaw = yaw r, roll = roll r\<rparr>"

definition get_right_vector :: "Rotation \<Rightarrow> Vector3D" where
  "get_right_vector rot =
     (let cy = cos (radians (yaw rot)); sy = sin (radians (yaw rot));
          cr = cos (radians (roll rot)); sr = sin (radians (roll rot));
          cp = cos (radians (pitch rot)); sp = sin (radians (pitch rot))
      in Vector3D_init (cy * sp * sr - sy * cr) (sy * sp * sr + cy * cr) (- cp * sr))"

definition get_forward_vector :: "Rotation \<Rightarrow> Vector3D" where
  "get_forward_vector rot =
     (let cp = cos (radians (pitch rot)); sp = sin (radians (pitch rot));
          cy = cos (radians (yaw rot)); sy = sin (radians (yaw rot))
      in Vector3D_init (cp * cy) (cp * sy) sp)"

definition get_up_vector :: "Rotation \<Rightarrow> Vector3D" where
  "get_up_vector rot =
     (let cy = cos (radians (yaw rot)); sy = sin (radians (yaw rot));
          cr = cos (radians (roll rot)); sr = sin (radians (roll rot));
          cp = cos (radians (pitch rot)); sp = sin (radians (pitch rot))
      in Vector3D_init (- cy * sp * cr - sy * sr) (- sy * sp * cr + cy * sr) (cp * cr))"

subsection \<open>Matrices\<close>

text \<open>
  Every matrix a Transform holds is a 4x4 array, kept here as four rows of four
  entries; \<open>entry M i j\<close> is \<^verbatim>\<open>M[i, j]\<close>. Points are triples.
\<close>

type_synonym vec3 = "real \<times> real \<times> real"
type_synonym vec4 = "real \<times> real \<times> real \<times> real"
type_synonym mat4 = "vec4 \<times> vec4 \<times> vec4 \<times> vec4"

fun col4 :: "vec4 \<Rightarrow> nat \<Rightarrow> real" where
  "col4 (a, b, c, d) j = (if j = 0 then a else if j = 1 then b else if j = 2 then c else d)"

fun row4 :: "mat4 \<Rightarrow> nat \<Rightarrow> vec4" where
  "row4 (r0, r1, r2, r3) i = (if i = 0 then r0 else if i = 1 then r1 else if i = 2 then r2 else r3)"

definition entry :: "mat4 \<Rightarrow> nat \<Rightarrow> nat \<Rightarrow> real" where
  "entry M i j = col4 (row4 M i) j"

definition identity4 :: mat4 where
  "identity4 = ((1, 0, 0, 0), (0, 1, 0, 0), (0, 0, 1, 0), (0, 0, 0, 1))"

text \<open>\<^verbatim>\<open>Transform._create_matrix\<close>: the identity with the twelve entries assigned.\<close>

definition create_matrix :: "Vector3D \<Rightarrow> Rotation \<Rightarrow> mat4" where
  "create_matrix loc rot =
     (let cy = cos (radians (yaw rot)); sy = sin (radians (yaw rot));
          cr = cos (radians (roll rot)); sr = sin (radians (roll rot));
          cp = cos (radians (pitch rot)); sp = sin (radians (pitch rot))
      in ((cp * cy, cy * sp * sr - sy * cr, - cy * sp * cr - sy * sr, vx loc),
          (sy * cp, sy * sp * sr + cy * cr, - sy * sp * cr + cy * sr, vy loc),
          (sp, - cp * sr, cp * cr, vz loc),
          (0, 0, 0, 1)))"

subsection \<open>Quaternion\<close>

type_synonym mat3 = "vec3 \<times> vec3 \<times> vec3"

record Quaternion =
  qw :: real
  qx :: real
  qy :: real
  qz :: real
  qmatrix :: mat3

text \<open>\<^verbatim>\<open>np.linalg.norm([w, x, y, z])\<close>: the Euclidean norm of the four components.\<close>

definition norm4 :: "real \<Rightarrow> real \<Rightarrow> real \<Rightarrow> real \<Rightarrow> real" where
  "norm4 w x y z = sqrt (w\<^sup>2 + x\<^sup>2 + y\<^sup>2 + z\<^sup>2)"

definition Quaternion_create_matrix :: "real \<Rightarrow> real \<Rightarrow> real \<Rightarrow> real \<Rightarrow> mat3" where
  "Quaternion_create_matrix w x y z =
     (let x2 = x * 2; y2 = y * 2; z2 = z * 2;
          xx = x * x2; xy = x * y2; xz = x * z2;
          yy = y * y2; yz = y * z2; zz = z * z2;
          wx = w * x2; wy = w * y2; wz = w * z2
      in ((1 - (yy + zz), xy - wz, xz + wy),
          (xy + wz, 1 - (xx + zz), yz - wx),
          (xz - wy, yz + wx, 1 - (xx + yy))))"

definition Quaternion_init :: "real \<Rightarrow> real \<Rightarrow> real \<Rightarrow> real \<Rightarrow> Quaternion" where
  "Quaternion_init w x y z =
     (let norm = norm4 w x y z;
          (w', x', y', z') =
            (if norm < 1 / 10 ^ 50 then (0, 0, 0, 0)
             else (w / norm, x / norm, y / norm, z / norm))
      in \<lparr>qw = w', qx = x', qy = y', qz = z',
          qmatrix = Quaternion_create_matrix w' x' y' z'\<rparr>)"

definition from_rotation :: "Rotation \<Rightarrow> Quaternion" where
  "from_rotation rotation =
     (let roll_by_2 = radians (roll rotation) / 2;
          pitch_by_2 = radians (pitch rotation) / 2;
          yaw_by_2 = radians (yaw rotation) / 2;
          cr = cos roll_by_2; sr = sin roll_by_2;
          cp = cos pitch_by_2; sp = sin pitch_by_2;
          cy = cos yaw_by_2; sy = sin yaw_by_2;
          w = cr * cp * cy + sr * sp * sy;
          x = cr * sp * sy - sr * cp * cy;
          y = - cr * sp * cy - sr * cp * sy;
          z = cr * cp * sy - sr * sp * cy
      in Quaternion_init w x y z)"

definition SINGULARITY_THRESHOLD :: real where
  "SINGULARITY_THRESHOLD = 4999995 / 10000000"

text \<open>
  \<^verbatim>\<open>np.arcsin\<close> is defined on \<open>[-1, 1]\<close>; outside it numpy reports an invalid value
  (a NaN result, an exception under \<^verbatim>\<open>np.seterr(invalid='raise')\<close>). The model keeps
  that case apart as \<open>None\<close>.
\<close>

definition np_arcsin :: "real \<Rightarrow> real option" where
  "np_arcsin a = (if - 1 \<le> a \<and> a \<le> 1 then Some (arcsin a) else None)"

text \<open>
  \<open>as_rotation\<close> returns \<open>None\<close> exactly when the inverse sine of the regular branch is
  taken outside its domain; every other operation of the source is total.
\<close>

definition as_rotation :: "Quaternion \<Rightarrow> Rotation option" where
  "as_rotation q =
     (let singularity_test = qz q * qx q - qw q * qy q;
          yaw_y = 2 * (qw q * qz q + qx q * qy q);
          yaw_x = 1 - 2 * ((qy q)\<^sup>2 + (qz q)\<^sup>2)
      in if singularity_test < - SINGULARITY_THRESHOLD then
           (let p = - 90;
                yw = atan2 yaw_y yaw_x * RAD_TO_DEG;
                rl = - yw - (2 * atan2 (qx q) (qw q) * RAD_TO_DEG)
            in Some (Rotation_init p yw rl))
         else if singularity_test > SINGULARITY_THRESHOLD then
           (let p = 90;
                yw = atan2 yaw_y yaw_x * RAD_TO_DEG;
                rl = yw - (2 * atan2 (qx q) (qw q) * RAD_TO_DEG)
            in Some (Rotation_init p yw rl))
         else
           (case np_arcsin (2 * singularity_test) of
              None \<Rightarrow> None
            | Some a \<Rightarrow>
                (let p = a * RAD_TO_DEG;
                     yw = atan2 yaw_y yaw_x * RAD_TO_DEG;
                     rl = atan2 (- 2 * (qw q * qx q + qy q * qz q))
                            (1 - 2 * ((qx q)\<^sup>2 + (qy q)\<^sup>2)) * RAD_TO_DEG
                 in Some (Rotation_init p yw rl))))"

subsection \<open>Matrix product and inverse\<close>

fun dot4 :: "vec4 \<Rightarrow> vec4 \<Rightarrow> real" where
  "dot4 (a, b, c, d) (e, f, g, h) = a * e + b * f + c * g + d * h"

definition column :: "mat4 \<Rightarrow> nat \<Rightarrow> vec4" where
  "column M j = (entry M 0 j, entry M 1 j, entry M 2 j, entry M 3 j)"

text \<open>\<^verbatim>\<open>np.dot(A, B)\<close> for two 4x4 arrays: rows of \<open>A\<close> against columns of \<open>B\<close>.\<close>

definition mat_row_mul :: "vec4 \<Rightarrow> mat4 \<Rightarrow> vec4" where
  "mat_row_mul r B = (dot4 r (column B 0), dot4 r (column B 1), dot4 r (column B 2),
     dot4 r (column B 3))"

definition np_dot :: "mat4 \<Rightarrow> mat4 \<Rightarrow> mat4" where
  "np_dot A B = (mat_row_mul (row4 A 0) B, mat_row_mul (row4 A 1) B, mat_row_mul (row4 A 2) B,
     mat_row_mul (row4 A 3) B)"

text \<open>
  \<^verbatim>\<open>np.linalg.inv\<close> is a library routine: it returns the inverse of a square matrix and
  raises \<^verbatim>\<open>LinAlgError\<close> on a singular one. It is modelled by the determinant and the
  adjugate, computed from the 2x2 minors of the upper and the lower pair of rows.
\<close>

definition det4 :: "mat4 \<Rightarrow> real" where
  "det4 M =
     (case M of ((a00, a01, a02, a03), (a10, a11, a12, a13), (a20, a21, a22, a23),
          (a30, a31, a32, a33)) \<Rightarrow>
      let s0 = a00 * a11 - a10 * a01; s1 = a00 * a12 - a10 * a02;
          s2 = a00 * a13 - a10 * a03; s3 = a01 * a12 - a11 * a02;
          s4 = a01 * a13 - a11 * a03; s5 = a02 * a13 - a12 * a03;
          c5 = a22 * a33 - a32 * a23; c4 = a21 * a33 - a31 * a23;
          c3 = a21 * a32 - a31 * a22; c2 = a20 * a33 - a30 * a23;
          c1 = a20 * a32 - a30 * a22; c0 = a20 * a31 - a30 * a21
      in s0 * c5 - s1 * c4 + s2 * c3 + s3 * c2 - s4 * c1 + s5 * c0)"

definition adjugate4 :: "mat4 \<Rightarrow> mat4" where
  "adjugate4 M =
     (case M of ((a00, a01, a02, a03), (a10, a11, a12, a13), (a20, a21, a22, a23),
          (a30, a31, a32, a33)) \<Rightarrow>
      let s0 = a00 * a11 - a10 * a01; s1 = a00 * a12 - a10 * a02;
          s2 = a00 * a13 - a10 * a03; s3 = a01 * a12 - a11 * a02;
          s4 = a01 * a13 - a11 * a03; s5 = a02 * a13 - a12 * a03;
          c5 = a22 * a33 - a32 * a23; c4 = a21 * a33 - a31 * a23;
          c3 = a21 * a32 - a31 * a22; c2 = a20 * a33 - a30 * a23;
          c1 = a20 * a32 - a30 * a22; c0 = a20 * a31 - a30 * a21
      in ((a11 * c5 - a12 * c4 + a13 * c3, - a01 * c5 + a02 * c4 - a03 * c3,
           a31 * s5 - a32 * s4 + a33 * s3, - a21 * s5 + a22 * s4 - a23 * s3),
          (- a10 * c5 + a12 * c2 - a13 * c1, a00 * c5 - a02 * c2 + a03 * c1,
           - a30 * s5 + a32 * s2 - a33 * s1, a20 * s5 - a22 * s2 + a23 * s1),
          (a10 * c4 - a11 * c2 + a13 * c0, - a00 * c4 + a01 * c2 - a03 * c0,
           a30 * s4 - a31 * s2 + a33 * s0, - a20 * s4 + a21 * s2 - a23 * s0),
          (- a10 * c3 + a11 * c1 - a12 * c0, a00 * c3 - a01 * c1 + a02 * c0,
           - a30 * s3 + a31 * s1 - a32 * s0, a20 * s3 - a21 * s1 + a22 * s0)))"

fun scale_vec4 :: "real \<Rightarrow> vec4 \<Rightarrow> vec4" where
  "scale_vec4 k (a, b, c, d) = (k * a, k * b, k * c, k * d)"

fun scale_mat4 :: "real \<Rightarrow> mat4 \<Rightarrow> mat4" where
  "scale_mat4 k (r0, r1, r2, r3) =
     (scale_vec4 k r0, scale_vec4 k r1, scale_vec4 k r2, scale_vec4 k r3)"

definition linalg_inv :: "mat4 \<Rightarrow> error + mat4" where
  "linalg_inv M =
     (if det4 M = 0 then Inl LinAlgError else Inr (scale_mat4 (1 / det4 M) (adjugate4 M)))"

subsection \<open>Transform\<close>

text \<open>
  The fields \<open>snap_location\<close>, \<open>snap_rotation\<close> and \<open>inv_matrix\<close> are the private
  \<^verbatim>\<open>_location\<close>, \<^verbatim>\<open>_rotation\<close> and \<^verbatim>\<open>_inv_matrix\<close> of the source.
\<close>

record Transform =
  location :: Vector3D
  rotation :: Rotation
  matrix :: mat4
  forward_vector :: Vector3D
  inv_matrix :: "mat4 option"
  snap_location :: Vector3D
  snap_rotation :: Rotation

text \<open>
  The constructor. With a matrix, the location is its translation column and the rotation
  is recovered from the first column and the entry \<open>[2, 1]\<close>; the first quotient is a
  quotient of two Python floats and raises \<^verbatim>\<open>ZeroDivisionError\<close> on a zero cosine (in
  exact arithmetic that is a forward vector with \<open>z\<close> of 1 or more in absolute value).
  Without a matrix, a missing location or rotation is the default one.
\<close>

definition Transform_init ::
    "Vector3D option \<Rightarrow> Rotation option \<Rightarrow> mat4 option \<Rightarrow> error + Transform" where
  "Transform_init loc rot mat =
     (case mat of
        Some m \<Rightarrow>
          (let l = Location_init (entry m 0 3) (entry m 1 3) (entry m 2 3);
               fwd = Vector3D_init (entry m 0 0) (entry m 1 0) (entry m 2 0);
               pitch_r = arcsin (clip (vz fwd) (- 1) 1)
           in if cos pitch_r = 0 then Inl ZeroDivisionError
              else
                (let yaw_r = arccos (clip (vx fwd / cos pitch_r) (- 1) 1);
                     roll_r = arcsin (clip (entry m 2 1 / (- 1 * cos pitch_r)) (- 1) 1);
                     r = Rotation_init (degrees pitch_r) (degrees yaw_r) (degrees roll_r)
                 in Inr \<lparr>location = l, rotation = r, matrix = m, forward_vector = fwd,
                      inv_matrix = None, snap_location = Vector3D_copy l,
                      snap_rotation = Rotation_copy r\<rparr>))
      | None \<Rightarrow>
          (let l = (case loc of Some l' \<Rightarrow> l' | None \<Rightarrow> Location_init 0 0 0);
               r = (case rot of Some r' \<Rightarrow> r' | None \<Rightarrow> Rotation_init 0 0 0);
               m = create_matrix l r
           in Inr \<lparr>location = l, rotation = r, matrix = m,
                forward_vector = Vector3D_init (entry m 0 0) (entry m 1 0) (entry m 2 0),
                inv_matrix = None, snap_location = Vector3D_copy l,
                snap_rotation = Rotation_copy r\<rparr>))"

text \<open>
  \<open>get_matrix\<close> reads and updates the object: the result is the returned matrix (or the
  exception of the inversion) together with the transform as the call leaves it.
\<close>

definition get_matrix :: "Transform \<Rightarrow> bool \<Rightarrow> (error + mat4) \<times> Transform" where
  "get_matrix t want_inverse =
     (let t1 = (if snap_location t \<noteq> location t \<or> snap_rotation t \<noteq> rotation t
                then t\<lparr>snap_location := Vector3D_copy (location t),
                       snap_rotation := Rotation_copy (rotation t),
                       matrix := create_matrix (location t) (rotation t),
                       inv_matrix := None\<rparr>
                else t)
      in if want_inverse then
           (case inv_matrix t1 of
              None \<Rightarrow>
                (case linalg_inv (matrix t1) of
                   Inl e \<Rightarrow> (Inl e, t1)
                 | Inr m \<Rightarrow> (Inr m, t1\<lparr>inv_matrix := Some m\<rparr>))
            | Some m \<Rightarrow> (Inr m, t1))
         else (Inr (matrix t1), t1))"

text \<open>
  \<^verbatim>\<open>astype(np.float32)\<close>: the conversion of a 64-bit float to the nearest 32-bit float,
  ties to the even significand. A 32-bit float has a significand of 24 bits; the unit in
  the last place of \<open>x\<close> is 2 to the power \<open>floor (log2 |x|) - 23\<close>, and not below
  \<open>2 ^ -149\<close>, the spacing of the subnormal numbers. Beyond the largest 32-bit float the
  source gets an infinity; the model, which has no infinities, rounds on the same grid.
\<close>

definition round_half_even :: "real \<Rightarrow> int" where
  "round_half_even y =
     (let f = \<lfloor>y\<rfloor>; d = y - real_of_int f
      in if d < 1 / 2 then f
         else if d > 1 / 2 then f + 1
         else if even f then f else f + 1)"

definition float32_ulp :: "real \<Rightarrow> real" where
  "float32_ulp x = 2 powr real_of_int (max (\<lfloor>log 2 \<bar>x\<bar>\<rfloor> - 23) (- 149))"

definition astype_float32 :: "real \<Rightarrow> real" where
  "astype_float32 x =
     (if x = 0 then 0
      else real_of_int (round_half_even (x / float32_ulp x)) * float32_ulp x)"

fun astype_float32_vec3 :: "vec3 \<Rightarrow> vec3" where
  "astype_float32_vec3 (a, b, c) = (astype_float32 a, astype_float32 b, astype_float32 c)"

text \<open>
  The numbers with a significand of 24 bits and an exponent of -149 or more: the grid of
  the 32-bit floats.
\<close>

definition single_precision :: "real \<Rightarrow> bool" where
  "single_precision x =
     (\<exists>m e :: int. \<bar>m\<bar> < 2 ^ 24 \<and> - 149 \<le> e \<and> x = real_of_int m * 2 powr real_of_int e)"

text \<open>
  The private \<^verbatim>\<open>__transform\<close>: each point gets a fourth coordinate 1, is multiplied by
  the matrix, loses the fourth coordinate again, and is converted to 32-bit floats.
\<close>

fun apply_matrix :: "mat4 \<Rightarrow> vec3 \<Rightarrow> vec3" where
  "apply_matrix M (px, py, pz) =
     (dot4 (row4 M 0) (px, py, pz, 1), dot4 (row4 M 1) (px, py, pz, 1),
      dot4 (row4 M 2) (px, py, pz, 1))"

definition Transform__transform :: "vec3 list \<Rightarrow> mat4 \<Rightarrow> vec3 list" where
  "Transform__transform points M = map (\<lambda>p. astype_float32_vec3 (apply_matrix M p)) points"

text \<open>
  One point is reshaped to a 1x3 array, transformed, and flattened: the only row of the
  result.
\<close>

definition transform_point :: "Transform \<Rightarrow> vec3 \<Rightarrow> (error + vec3) \<times> Transform" where
  "transform_point t point =
     (case get_matrix t False of
        (Inl e, t') \<Rightarrow> (Inl e, t')
      | (Inr m, t') \<Rightarrow> (Inr (hd (Transform__transform [point] m)), t'))"

definition inverse_transform_point ::
    "Transform \<Rightarrow> vec3 \<Rightarrow> (error + vec3) \<times> Transform" where
  "inverse_transform_point t point =
     (case get_matrix t True of
        (Inl e, t') \<Rightarrow> (Inl e, t')
      | (Inr m, t') \<Rightarrow> (Inr (hd (Transform__transform [point] m)), t'))"

definition get_angle_and_magnitude :: "Transform \<Rightarrow> Vector3D \<Rightarrow> real \<times> real" where
  "get_angle_and_magnitude t target_loc =
     (let target_vec = Vector2D_sub (as_vector_2D target_loc) (as_vector_2D (location t));
          magnitude = Vector2D_magnitude target_vec;
          angle =
            (if magnitude > 0 then
               get_angle target_vec
                 \<lparr>x2 = cos (radians (yaw (rotation t))), y2 = sin (radians (yaw (rotation t)))\<rparr>
             else 0)
      in (angle, magnitude))"

definition is_within_distance_ahead :: "Transform \<Rightarrow> Vector3D \<Rightarrow> real \<Rightarrow> bool" where
  "is_within_distance_ahead t dst_loc max_distance =
     (case get_angle_and_magnitude t dst_loc of
        (d_angle, norm_dst) \<Rightarrow>
          if norm_dst < 1 / 1000 then True
          else if norm_dst > max_distance then False
          else d_angle < 90)"

text \<open>\<^verbatim>\<open>__mul__\<close> reads the two \<open>matrix\<close> fields and builds a transform from their product.\<close>

definition Transform_mul :: "Transform \<Rightarrow> Transform \<Rightarrow> error + Transform" where
  "Transform_mul t other = Transform_init None None (Some (np_dot (matrix t) (matrix other)))"

subsection \<open>BoundingBox\<close>

record BoundingBox =
  bb_location :: Vector3D
  extent :: Vector3D
  bb_rotation :: Rotation

definition BoundingBox_init :: "Vector3D \<Rightarrow> Vector3D \<Rightarrow> Rotation option \<Rightarrow> BoundingBox" where
  "BoundingBox_init loc ext rot =
     \<lparr>bb_location = loc, extent = ext,
      bb_rotation = (case rot of Some r \<Rightarrow> r | None \<Rightarrow> Rotation_init 0 0 0)\<rparr>"

text \<open>The point argument of \<open>contains\<close> is a Location or an array of three numbers.\<close>

datatype world_point = PointLocation Vector3D | PointArray vec3

fun world_point_array :: "world_point \<Rightarrow> vec3" where
  "world_point_array (PointLocation l) = (vx l, vy l, vz l)"
| "world_point_array (PointArray a) = a"

fun sub_vec3 :: "vec3 \<Rightarrow> vec3 \<Rightarrow> vec3" where
  "sub_vec3 (a, b, c) (d, e, f) = (a - d, b - e, c - f)"

fun within_extent :: "vec3 \<Rightarrow> Vector3D \<Rightarrow> bool" where
  "within_extent (a, b, c) ext = (\<bar>a\<bar> \<le> vx ext \<and> \<bar>b\<bar> \<le> vy ext \<and> \<bar>c\<bar> \<le> vz ext)"

definition contains ::
    "BoundingBox \<Rightarrow> world_point \<Rightarrow> Transform \<Rightarrow> (error + bool) \<times> Transform" where
  "contains b wp t =
     (case inverse_transform_point t (world_point_array wp) of
        (Inl e, t') \<Rightarrow> (Inl e, t')
      | (Inr point_in_bbox_space, t') \<Rightarrow>
          (Inr (within_extent
                  (sub_vec3 point_in_bbox_space (as_numpy_array (bb_location b)))
                  (extent b)),
           t'))"

subsection \<open>A transform at the origin\<close>

text \<open>
  \<^verbatim>\<open>Transform()\<close> after one call of \<^verbatim>\<open>get_matrix(inverse=True)\<close>: identity matrix,
  inverse cached.
\<close>

definition origin_transform :: Transform where
  "origin_transform =
     \<lparr>location = Location_init 0 0 0, rotation = Rotation_init 0 0 0, matrix = identity4,
      forward_vector = Vector3D_init 1 0 0, inv_matrix = Some identity4,
      snap_location = Location_init 0 0 0, snap_rotation = Rotation_init 0 0 0\<rparr>"

section \<open>Properties\<close>

text \<open>
  C6. For every rotation and every location, the forward, right and up vectors of the
  rotation are, component for component, columns 0, 1 and 2 of the 3x3 rotation block
  of the matrix that \<open>create_matrix\<close> builds.
\<close>

theorem basis_vectors_are_matrix_columns:
  "get_forward_vector r =
     Vector3D_init (entry (create_matrix loc r) 0 0) (entry (create_matrix loc r) 1 0)
       (entry (create_matrix loc r) 2 0)
   \<and> get_right_vector r =
     Vector3D_init (entry (create_matrix loc r) 0 1) (entry (create_matrix loc r) 1 1)
       (entry (create_matrix loc r) 2 1)
   \<and> get_up_vector r =
     Vector3D_init (entry (create_matrix loc r) 0 2) (entry (create_matrix loc r) 1 2)
       (entry (create_matrix loc r) 2 2)"
  by (simp add: get_forward_vector_def get_right_vector_def get_up_vector_def
      create_matrix_def entry_def Let_def mult.commute)

text \<open>
  C9. The source computes the second component of \<open>rotate\<close> as
  \<open>sin a * x - cos a * y\<close>: rotating \<open>(0, 1, 0)\<close> by 0 degrees gives \<open>(0, -1, 0)\<close>.
\<close>

theorem rotate_zero_flips_y:
  "rotate (Vector3D_init 0 1 0) 0 = Vector3D_init 0 (- 1) 0"
  by (simp add: rotate_def Vector3D_init_def radians_def)

subsection \<open>Quaternions built from a rotation\<close>

text \<open>
  The polynomial identities behind \<open>from_rotation\<close>, over the sines and cosines of the
  three half angles.
\<close>

lemma half_angle_norm:
  fixes sa ca sb cb sc cc :: real
  assumes "sa\<^sup>2 + ca\<^sup>2 = 1" and "sb\<^sup>2 + cb\<^sup>2 = 1" and "sc\<^sup>2 + cc\<^sup>2 = 1"
  shows "(ca * cb * cc + sa * sb * sc)\<^sup>2 + (ca * sb * sc - sa * cb * cc)\<^sup>2
       + (- ca * sb * cc - sa * cb * sc)\<^sup>2 + (ca * cb * sc - sa * sb * cc)\<^sup>2 = 1"
  using assms by algebra

lemma half_angle_products:
  fixes sa ca sb cb sc cc :: real
  assumes "sa\<^sup>2 + ca\<^sup>2 = 1" and "sb\<^sup>2 + cb\<^sup>2 = 1" and "sc\<^sup>2 + cc\<^sup>2 = 1"
  defines "w \<equiv> ca * cb * cc + sa * sb * sc"
    and "x \<equiv> ca * sb * sc - sa * cb * cc"
    and "y \<equiv> - ca * sb * cc - sa * cb * sc"
    and "z \<equiv> ca * cb * sc - sa * sb * cc"
  shows "z * x - w * y = sb * cb"
    and "2 * (w * z + x * y) = (cb\<^sup>2 - sb\<^sup>2) * (2 * sc * cc)"
    and "1 - 2 * (y\<^sup>2 + z\<^sup>2) = (cb\<^sup>2 - sb\<^sup>2) * (cc\<^sup>2 - sc\<^sup>2)"
    and "- 2 * (w * x + y * z) = (cb\<^sup>2 - sb\<^sup>2) * (2 * sa * ca)"
    and "1 - 2 * (x\<^sup>2 + y\<^sup>2) = (cb\<^sup>2 - sb\<^sup>2) * (ca\<^sup>2 - sa\<^sup>2)"
  using assms(1-3) unfolding w_def x_def y_def z_def by algebra+

lemma norm4_unit: "w\<^sup>2 + x\<^sup>2 + y\<^sup>2 + z\<^sup>2 = 1 \<Longrightarrow> norm4 w x y z = 1"
  by (simp add: norm4_def)

lemma Quaternion_init_unit:
  assumes "w\<^sup>2 + x\<^sup>2 + y\<^sup>2 + z\<^sup>2 = 1"
  shows "Quaternion_init w x y z =
     \<lparr>qw = w, qx = x, qy = y, qz = z, qmatrix = Quaternion_create_matrix w x y z\<rparr>"
  using norm4_unit[OF assms] by (simp add: Quaternion_init_def)

lemma from_rotation_components:
  fixes r :: Rotation
  defines "a \<equiv> radians (roll r) / 2" and "b \<equiv> radians (pitch r) / 2"
    and "c \<equiv> radians (yaw r) / 2"
  defines "q \<equiv> from_rotation r"
  shows "qw q = cos a * cos b * cos c + sin a * sin b * sin c"
    and "qx q = cos a * sin b * sin c - sin a * cos b * cos c"
    and "qy q = - cos a * sin b * cos c - sin a * cos b * sin c"
    and "qz q = cos a * cos b * sin c - sin a * sin b * cos c"
proof -
  let ?w = "cos a * cos b * cos c + sin a * sin b * sin c"
  let ?x = "cos a * sin b * sin c - sin a * cos b * cos c"
  let ?y = "- cos a * sin b * cos c - sin a * cos b * sin c"
  let ?z = "cos a * cos b * sin c - sin a * sin b * cos c"
  have n: "?w\<^sup>2 + ?x\<^sup>2 + ?y\<^sup>2 + ?z\<^sup>2 = 1"
    by (rule half_angle_norm) simp_all
  have "q = Quaternion_init ?w ?x ?y ?z"
    by (simp add: q_def from_rotation_def Let_def a_def b_def c_def)
  then have q: "q = \<lparr>qw = ?w, qx = ?x, qy = ?y, qz = ?z,
      qmatrix = Quaternion_create_matrix ?w ?x ?y ?z\<rparr>"
    by (simp only: Quaternion_init_unit[OF n])
  show "qw q = ?w" by (subst q) simp
  show "qx q = ?x" by (subst q) simp
  show "qy q = ?y" by (subst q) simp
  show "qz q = ?z" by (subst q) simp
qed

text \<open>
  The five quantities \<open>as_rotation\<close> reads off a quaternion, for a quaternion that
  \<open>from_rotation\<close> built: half the sine of the pitch, and the sine and cosine of yaw and
  roll, both scaled by the cosine of the pitch.
\<close>

lemma from_rotation_tests:
  fixes r :: Rotation
  defines "q \<equiv> from_rotation r"
  shows "qz q * qx q - qw q * qy q = sin (radians (pitch r)) / 2"
    and "2 * (qw q * qz q + qx q * qy q) = cos (radians (pitch r)) * sin (radians (yaw r))"
    and "1 - 2 * ((qy q)\<^sup>2 + (qz q)\<^sup>2) = cos (radians (pitch r)) * cos (radians (yaw r))"
    and "- 2 * (qw q * qx q + qy q * qz q) = cos (radians (pitch r)) * sin (radians (roll r))"
    and "1 - 2 * ((qx q)\<^sup>2 + (qy q)\<^sup>2) = cos (radians (pitch r)) * cos (radians (roll r))"
proof -
  define a b c where "a = radians (roll r) / 2" and "b = radians (pitch r) / 2"
    and "c = radians (yaw r) / 2"
  have ang: "radians (roll r) = 2 * a" "radians (pitch r) = 2 * b" "radians (yaw r) = 2 * c"
    by (simp_all add: a_def b_def c_def)
  note comp = from_rotation_components[of r, folded a_def b_def c_def q_def]
  have t: "(sin a)\<^sup>2 + (cos a)\<^sup>2 = 1" "(sin b)\<^sup>2 + (cos b)\<^sup>2 = 1"
    "(sin c)\<^sup>2 + (cos c)\<^sup>2 = 1"
    by simp_all
  show "qz q * qx q - qw q * qy q = sin (radians (pitch r)) / 2"
    unfolding comp ang sin_double using half_angle_products(1)[OF t] by simp
  show "2 * (qw q * qz q + qx q * qy q) = cos (radians (pitch r)) * sin (radians (yaw r))"
    unfolding comp ang sin_double cos_double using half_angle_products(2)[OF t] by simp
  show "1 - 2 * ((qy q)\<^sup>2 + (qz q)\<^sup>2) = cos (radians (pitch r)) * cos (radians (yaw r))"
    unfolding comp ang sin_double cos_double using half_angle_products(3)[OF t] by simp
  show "- 2 * (qw q * qx q + qy q * qz q) = cos (radians (pitch r)) * sin (radians (roll r))"
    unfolding comp ang sin_double cos_double using half_angle_products(4)[OF t] by simp
  show "1 - 2 * ((qx q)\<^sup>2 + (qy q)\<^sup>2) = cos (radians (pitch r)) * cos (radians (roll r))"
    unfolding comp ang sin_double cos_double using half_angle_products(5)[OF t] by simp
qed

subsection \<open>What atan2 recovers\<close>

lemma sin_cos_arctan_ratio_pos:
  fixes s c :: real
  assumes "s\<^sup>2 + c\<^sup>2 = 1" "0 < c"
  shows "sin (arctan (s / c)) = s" "cos (arctan (s / c)) = c"
proof -
  have "1 + (s / c)\<^sup>2 = (1 / c)\<^sup>2"
    using assms by (simp add: field_simps power2_eq_square)
  then have sq: "sqrt (1 + (s / c)\<^sup>2) = 1 / c"
    using assms(2) by (simp add: real_sqrt_divide)
  show "sin (arctan (s / c)) = s"
    using assms(2) by (simp add: sin_arctan sq)
  show "cos (arctan (s / c)) = c"
    using assms(2) by (simp add: cos_arctan sq)
qed

lemma sin_cos_arctan_ratio_neg:
  fixes s c :: real
  assumes "s\<^sup>2 + c\<^sup>2 = 1" "c < 0"
  shows "sin (arctan (s / c)) = - s" "cos (arctan (s / c)) = - c"
proof -
  have "(- s)\<^sup>2 + (- c)\<^sup>2 = 1" "0 < - c" using assms by simp_all
  from sin_cos_arctan_ratio_pos[OF this]
  show "sin (arctan (s / c)) = - s" "cos (arctan (s / c)) = - c" by simp_all
qed

text \<open>
  For a point \<open>(k * c, k * s)\<close> on the circle of radius \<open>k > 0\<close>, \<open>atan2\<close> returns an
  angle with sine \<open>s\<close> and cosine \<open>c\<close>.
\<close>

lemma atan2_sin_cos:
  fixes s c k :: real
  assumes sc: "s\<^sup>2 + c\<^sup>2 = 1" and k: "0 < k"
  shows "sin (atan2 (k * s) (k * c)) = s \<and> cos (atan2 (k * s) (k * c)) = c"
proof -
  consider "0 < c" | "c < 0" | "c = 0" by linarith
  then show ?thesis
  proof cases
    case 1
    then have "0 < k * c" using k by simp
    then show ?thesis
      using sin_cos_arctan_ratio_pos[OF sc 1] k by (simp add: atan2_def)
  next
    case 2
    then have kc: "k * c < 0" using k by (simp add: mult_pos_neg)
    then have nk: "\<not> 0 < k * c" by linarith
    show ?thesis
      using sin_cos_arctan_ratio_neg[OF sc 2] k kc nk by (simp add: atan2_def)
  next
    case 3
    then have "s\<^sup>2 = 1" using sc by simp
    then have "s = 1 \<or> s = - 1" by (simp add: power2_eq_1_iff)
    then show ?thesis using 3 k by (auto simp: atan2_def)
  qed
qed

lemma atan2_angle:
  assumes k: "0 < k"
  shows "\<exists>n::int. atan2 (k * sin t) (k * cos t) = t + 2 * pi * real_of_int n"
proof -
  have "sin (atan2 (k * sin t) (k * cos t)) = sin t
      \<and> cos (atan2 (k * sin t) (k * cos t)) = cos t"
    by (rule atan2_sin_cos) (simp_all add: k)
  then show ?thesis by (simp add: sin_cos_eq_iff)
qed

lemma full_turns_in_degrees:
  "(t + 2 * pi * real_of_int n) * RAD_TO_DEG = degrees t + 360 * real_of_int n"
  by (simp add: RAD_TO_DEG_def degrees_def field_simps)

lemma degrees_radians: "degrees (radians d) = d"
  by (simp add: degrees_def radians_def)

lemma atan2_degrees:
  assumes "0 < k"
  shows "\<exists>n::int. atan2 (k * sin (radians d)) (k * cos (radians d)) * RAD_TO_DEG
     = d + 360 * real_of_int n"
proof -
  obtain n :: int where
    "atan2 (k * sin (radians d)) (k * cos (radians d)) = radians d + 2 * pi * real_of_int n"
    using atan2_angle[OF assms] by blast
  then have "atan2 (k * sin (radians d)) (k * cos (radians d)) * RAD_TO_DEG
     = d + 360 * real_of_int n"
    by (simp only: full_turns_in_degrees degrees_radians)
  then show ?thesis ..
qed

text \<open>
  C3. A rotation whose pitch lies strictly between -90 and 90 degrees and outside the
  singularity band (the sine of the pitch is at most twice the threshold in absolute
  value, so \<open>as_rotation\<close> takes its regular branch) survives the round trip through a
  quaternion: the pitch comes back exactly, yaw and roll up to whole turns of 360 degrees.
\<close>

theorem quaternion_roundtrip:
  assumes lo: "- 90 < pitch r" and hi: "pitch r < 90"
    and band: "\<bar>sin (radians (pitch r))\<bar> \<le> 2 * SINGULARITY_THRESHOLD"
  shows "\<exists>r'. as_rotation (from_rotation r) = Some r' \<and> pitch r' = pitch r
     \<and> (\<exists>n::int. yaw r' = yaw r + 360 * real_of_int n)
     \<and> (\<exists>n::int. roll r' = roll r + 360 * real_of_int n)"
proof -
  define q where "q = from_rotation r"
  define k where "k = cos (radians (pitch r))"
  note tests = from_rotation_tests[of r, folded q_def k_def]
  have "pi * (- 90) < pi * pitch r" "pi * pitch r < pi * 90"
    using lo hi by (simp_all only: mult_less_cancel_left_pos pi_gt_zero)
  then have rng: "- (pi / 2) < radians (pitch r)" "radians (pitch r) < pi / 2"
    by (simp_all add: radians_def field_simps)
  have k: "0 < k" unfolding k_def using rng by (simp add: cos_gt_zero_pi)
  have st: "\<not> qz q * qx q - qw q * qy q < - SINGULARITY_THRESHOLD"
    "\<not> qz q * qx q - qw q * qy q > SINGULARITY_THRESHOLD"
    using band unfolding tests(1) by (simp_all add: abs_le_iff)
  have dom: "np_arcsin (2 * (qz q * qx q - qw q * qy q)) = Some (radians (pitch r))"
    unfolding tests(1) np_arcsin_def using rng by (simp add: arcsin_sin)
  obtain n1 :: int where n1: "atan2 (k * sin (radians (yaw r))) (k * cos (radians (yaw r)))
      * RAD_TO_DEG = yaw r + 360 * real_of_int n1"
    using atan2_degrees[OF k] by blast
  obtain n2 :: int where n2: "atan2 (k * sin (radians (roll r))) (k * cos (radians (roll r)))
      * RAD_TO_DEG = roll r + 360 * real_of_int n2"
    using atan2_degrees[OF k] by blast
  have p: "radians (pitch r) * RAD_TO_DEG = pitch r"
    by (simp add: radians_def RAD_TO_DEG_def)
  have "as_rotation q = Some (Rotation_init (pitch r) (yaw r + 360 * real_of_int n1)
      (roll r + 360 * real_of_int n2))"
    unfolding as_rotation_def Let_def using st dom
    by (simp only: if_False option.case tests(2-5) n1 n2 p)
  then show ?thesis
    unfolding q_def by (auto simp: Rotation_init_def)
qed

theorem quaternion_roundtrip_witness:
  "(- 90 < pitch (Rotation_init 30 400 (- 20)) \<and> pitch (Rotation_init 30 400 (- 20)) < 90
    \<and> \<bar>sin (radians (pitch (Rotation_init 30 400 (- 20))))\<bar> \<le> 2 * SINGULARITY_THRESHOLD)
   \<and> (\<exists>r'. as_rotation (from_rotation (Rotation_init 30 400 (- 20))) = Some r'
     \<and> pitch r' = 30
     \<and> (\<exists>n::int. yaw r' = 400 + 360 * real_of_int n)
     \<and> (\<exists>n::int. roll r' = - 20 + 360 * real_of_int n))"
proof -
  have h1: "- 90 < pitch (Rotation_init 30 400 (- 20))"
    and h2: "pitch (Rotation_init 30 400 (- 20)) < 90"
    by (simp_all add: Rotation_init_def)
  have eq: "radians (pitch (Rotation_init 30 400 (- 20))) = pi / 6"
    by (simp add: Rotation_init_def radians_def)
  have h3: "\<bar>sin (radians (pitch (Rotation_init 30 400 (- 20))))\<bar>
      \<le> 2 * SINGULARITY_THRESHOLD"
    unfolding eq by (simp add: sin_30 SINGULARITY_THRESHOLD_def)
  show ?thesis
    using h1 h2 h3 quaternion_roundtrip[OF h1 h2 h3] by (simp add: Rotation_init_def)
qed

text \<open>
  Inside the band the pitch is not reproduced: it comes back as 90 degrees.
\<close>

lemma roundtrip_clamps_pitch_in_band:
  assumes "sin (radians (pitch r)) > 2 * SINGULARITY_THRESHOLD"
  shows "\<exists>r'. as_rotation (from_rotation r) = Some r' \<and> pitch r' = 90"
proof -
  have "qz (from_rotation r) * qx (from_rotation r)
      - qw (from_rotation r) * qy (from_rotation r) > SINGULARITY_THRESHOLD"
    using assms unfolding from_rotation_tests(1) by simp
  moreover have "0 < SINGULARITY_THRESHOLD" by (simp add: SINGULARITY_THRESHOLD_def)
  ultimately show ?thesis
    by (simp add: as_rotation_def Let_def Rotation_init_def)
qed

subsection \<open>The three branches of as_rotation\<close>

text \<open>
  C4. For every quaternion, \<open>as_rotation\<close> returns a rotation (the inverse sine of the
  regular branch is never taken outside \<open>[-1, 1]\<close>, so nothing is raised and no NaN
  arises), and the rotation is the one of the branch that the singularity test
  \<open>z * x - w * y\<close> selects: pitch -90 below the negative threshold, pitch +90 above the
  positive one, both with the fallback formulas for yaw and roll; otherwise the inverse
  sine of twice the test, in degrees, with the general formulas.
\<close>

theorem as_rotation_three_branches:
  "let singularity_test = qz q * qx q - qw q * qy q;
       yw = atan2 (2 * (qw q * qz q + qx q * qy q)) (1 - 2 * ((qy q)\<^sup>2 + (qz q)\<^sup>2)) * RAD_TO_DEG
   in \<exists>r. as_rotation q = Some r
     \<and> (singularity_test < - (4999995 / 10000000) \<longrightarrow>
          pitch r = - 90 \<and> yaw r = yw
          \<and> roll r = - yw - 2 * atan2 (qx q) (qw q) * RAD_TO_DEG)
     \<and> (singularity_test > 4999995 / 10000000 \<longrightarrow>
          pitch r = 90 \<and> yaw r = yw
          \<and> roll r = yw - 2 * atan2 (qx q) (qw q) * RAD_TO_DEG)
     \<and> (- (4999995 / 10000000) \<le> singularity_test \<and> singularity_test \<le> 4999995 / 10000000 \<longrightarrow>
          pitch r = arcsin (2 * singularity_test) * RAD_TO_DEG \<and> yaw r = yw
          \<and> roll r = atan2 (- 2 * (qw q * qx q + qy q * qz q))
                       (1 - 2 * ((qx q)\<^sup>2 + (qy q)\<^sup>2)) * RAD_TO_DEG)"
  by (simp add: as_rotation_def Let_def np_arcsin_def SINGULARITY_THRESHOLD_def
      Rotation_init_def)

text \<open>Three quaternions, one for each branch; the last is the zero sentinel.\<close>

lemma norm4_examples:
  "norm4 1 0 1 0 = sqrt 2" "norm4 1 0 (- 1) 0 = sqrt 2" "norm4 0 0 0 0 = 0"
  by (simp_all add: norm4_def)

lemma sqrt2_not_tiny: "\<not> sqrt 2 < 1 / 10 ^ 50"
proof -
  have "(1::real) / 10 ^ 50 \<le> 1" by simp
  moreover have "1 \<le> sqrt 2" by simp
  ultimately show ?thesis by linarith
qed

lemma Quaternion_init_south:
  "Quaternion_init 1 0 1 0 = \<lparr>qw = 1 / sqrt 2, qx = 0, qy = 1 / sqrt 2, qz = 0,
    qmatrix = Quaternion_create_matrix (1 / sqrt 2) 0 (1 / sqrt 2) 0\<rparr>"
  using sqrt2_not_tiny by (simp add: Quaternion_init_def norm4_examples Let_def)

lemma Quaternion_init_north:
  "Quaternion_init 1 0 (- 1) 0 = \<lparr>qw = 1 / sqrt 2, qx = 0, qy = - 1 / sqrt 2, qz = 0,
    qmatrix = Quaternion_create_matrix (1 / sqrt 2) 0 (- 1 / sqrt 2) 0\<rparr>"
  using sqrt2_not_tiny by (simp add: Quaternion_init_def norm4_examples Let_def)

lemma Quaternion_init_zero:
  "Quaternion_init 0 0 0 0 = \<lparr>qw = 0, qx = 0, qy = 0, qz = 0,
    qmatrix = Quaternion_create_matrix 0 0 0 0\<rparr>"
  by (simp add: Quaternion_init_def norm4_examples Let_def)

theorem as_rotation_three_branches_witness:
  "(qz (Quaternion_init 1 0 1 0) * qx (Quaternion_init 1 0 1 0)
      - qw (Quaternion_init 1 0 1 0) * qy (Quaternion_init 1 0 1 0) < - (4999995 / 10000000)
    \<and> as_rotation (Quaternion_init 1 0 1 0) = Some (Rotation_init (- 90) 0 0))
   \<and> (qz (Quaternion_init 1 0 (- 1) 0) * qx (Quaternion_init 1 0 (- 1) 0)
      - qw (Quaternion_init 1 0 (- 1) 0) * qy (Quaternion_init 1 0 (- 1) 0)
        > 4999995 / 10000000
    \<and> as_rotation (Quaternion_init 1 0 (- 1) 0) = Some (Rotation_init 90 0 0))
   \<and> (qz (Quaternion_init 0 0 0 0) * qx (Quaternion_init 0 0 0 0)
      - qw (Quaternion_init 0 0 0 0) * qy (Quaternion_init 0 0 0 0) = 0
    \<and> as_rotation (Quaternion_init 0 0 0 0) = Some (Rotation_init 0 0 0))"
proof -
  have ts: "qz (Quaternion_init 1 0 1 0) * qx (Quaternion_init 1 0 1 0)
      - qw (Quaternion_init 1 0 1 0) * qy (Quaternion_init 1 0 1 0) < - (4999995 / 10000000)"
    unfolding Quaternion_init_south by simp
  have tn: "qz (Quaternion_init 1 0 (- 1) 0) * qx (Quaternion_init 1 0 (- 1) 0)
      - qw (Quaternion_init 1 0 (- 1) 0) * qy (Quaternion_init 1 0 (- 1) 0)
        > 4999995 / 10000000"
    unfolding Quaternion_init_north by simp
  have tz: "qz (Quaternion_init 0 0 0 0) * qx (Quaternion_init 0 0 0 0)
      - qw (Quaternion_init 0 0 0 0) * qy (Quaternion_init 0 0 0 0) = 0"
    unfolding Quaternion_init_zero by simp
  have s: "as_rotation (Quaternion_init 1 0 1 0) = Some (Rotation_init (- 90) 0 0)"
    using as_rotation_three_branches[of "Quaternion_init 1 0 1 0"]
    unfolding Quaternion_init_south
    by (auto simp: Let_def atan2_def Rotation_init_def power2_eq_square)
  have n: "as_rotation (Quaternion_init 1 0 (- 1) 0) = Some (Rotation_init 90 0 0)"
    using as_rotation_three_branches[of "Quaternion_init 1 0 (- 1) 0"]
    unfolding Quaternion_init_north
    by (auto simp: Let_def atan2_def Rotation_init_def power2_eq_square)
  have z: "as_rotation (Quaternion_init 0 0 0 0) = Some (Rotation_init 0 0 0)"
    using as_rotation_three_branches[of "Quaternion_init 0 0 0 0"]
    unfolding Quaternion_init_zero
    by (auto simp: Let_def atan2_def Rotation_init_def)
  from ts tn tz s n z show ?thesis by simp
qed

subsection \<open>Normalisation at construction\<close>

text \<open>
  C7. The constructor is a total function (the source has no raising operation in it).
  Below the norm 1e-50 the four stored components are 0; from 1e-50 on they are the
  inputs divided by the norm, and the stored quaternion has norm 1.
\<close>

theorem Quaternion_init_normalises:
  "(norm4 w x y z < 1 / 10 ^ 50 \<longrightarrow>
      qw (Quaternion_init w x y z) = 0 \<and> qx (Quaternion_init w x y z) = 0
      \<and> qy (Quaternion_init w x y z) = 0 \<and> qz (Quaternion_init w x y z) = 0)
   \<and> (1 / 10 ^ 50 \<le> norm4 w x y z \<longrightarrow>
      qw (Quaternion_init w x y z) = w / norm4 w x y z
      \<and> qx (Quaternion_init w x y z) = x / norm4 w x y z
      \<and> qy (Quaternion_init w x y z) = y / norm4 w x y z
      \<and> qz (Quaternion_init w x y z) = z / norm4 w x y z
      \<and> norm4 (qw (Quaternion_init w x y z)) (qx (Quaternion_init w x y z))
           (qy (Quaternion_init w x y z)) (qz (Quaternion_init w x y z)) = 1)"
proof (intro conjI impI)
  assume big: "1 / 10 ^ 50 \<le> norm4 w x y z"
  have "(0::real) < 1 / 10 ^ 50" by simp
  with big have pos: "0 < norm4 w x y z" by linarith
  have nb: "\<not> norm4 w x y z < 1 / 10 ^ 50" using big by linarith
  have sq: "(norm4 w x y z)\<^sup>2 = w\<^sup>2 + x\<^sup>2 + y\<^sup>2 + z\<^sup>2"
    by (simp add: norm4_def)
  have "(w / norm4 w x y z)\<^sup>2 + (x / norm4 w x y z)\<^sup>2 + (y / norm4 w x y z)\<^sup>2
      + (z / norm4 w x y z)\<^sup>2 = (w\<^sup>2 + x\<^sup>2 + y\<^sup>2 + z\<^sup>2) / (norm4 w x y z)\<^sup>2"
    by (simp add: power_divide add_divide_distrib)
  also have "\<dots> = 1" using pos by (simp add: sq[symmetric])
  finally have unit: "norm4 (w / norm4 w x y z) (x / norm4 w x y z) (y / norm4 w x y z)
      (z / norm4 w x y z) = 1"
    by (rule norm4_unit)
  show "qw (Quaternion_init w x y z) = w / norm4 w x y z"
    using nb by (simp add: Quaternion_init_def Let_def)
  show "qx (Quaternion_init w x y z) = x / norm4 w x y z"
    using nb by (simp add: Quaternion_init_def Let_def)
  show "qy (Quaternion_init w x y z) = y / norm4 w x y z"
    using nb by (simp add: Quaternion_init_def Let_def)
  show "qz (Quaternion_init w x y z) = z / norm4 w x y z"
    using nb by (simp add: Quaternion_init_def Let_def)
  show "norm4 (qw (Quaternion_init w x y z)) (qx (Quaternion_init w x y z))
           (qy (Quaternion_init w x y z)) (qz (Quaternion_init w x y z)) = 1"
    using nb unit by (simp add: Quaternion_init_def Let_def)
qed (simp_all add: Quaternion_init_def Let_def)

lemma norm4_345: "norm4 3 0 4 0 = 5"
proof -
  have "norm4 3 0 4 0 = sqrt (5\<^sup>2)" by (simp add: norm4_def)
  then show ?thesis by simp
qed

theorem Quaternion_init_normalises_witness:
  "(norm4 0 0 0 0 < 1 / 10 ^ 50 \<and> qw (Quaternion_init 0 0 0 0) = 0
      \<and> qx (Quaternion_init 0 0 0 0) = 0 \<and> qy (Quaternion_init 0 0 0 0) = 0
      \<and> qz (Quaternion_init 0 0 0 0) = 0)
   \<and> (1 / 10 ^ 50 \<le> norm4 3 0 4 0 \<and> qw (Quaternion_init 3 0 4 0) = 3 / 5
      \<and> qx (Quaternion_init 3 0 4 0) = 0 \<and> qy (Quaternion_init 3 0 4 0) = 4 / 5
      \<and> qz (Quaternion_init 3 0 4 0) = 0)"
proof -
  have small: "norm4 0 0 0 0 < 1 / 10 ^ 50" by (simp add: norm4_def)
  have big: "1 / 10 ^ 50 \<le> norm4 3 0 4 0" unfolding norm4_345 by simp
  show ?thesis
    using small big Quaternion_init_normalises[of 0 0 0 0]
      Quaternion_init_normalises[of 3 0 4 0]
    by (simp add: norm4_345)
qed

subsection \<open>The inverse of a 4x4 matrix\<close>

lemma mat4_cases:
  obtains a00 a01 a02 a03 a10 a11 a12 a13 a20 a21 a22 a23 a30 a31 a32 a33 :: real where
    "M = ((a00, a01, a02, a03), (a10, a11, a12, a13), (a20, a21, a22, a23),
      (a30, a31, a32, a33))"
  by (metis prod_cases4)

lemma np_dot_adjugate4:
  "np_dot M (adjugate4 M) = scale_mat4 (det4 M) identity4"
proof -
  obtain a00 a01 a02 a03 a10 a11 a12 a13 a20 a21 a22 a23 a30 a31 a32 a33 where
    M: "M = ((a00, a01, a02, a03), (a10, a11, a12, a13), (a20, a21, a22, a23),
      (a30, a31, a32, a33))"
    by (rule mat4_cases)
  show ?thesis
    unfolding M
    by (simp add: np_dot_def mat_row_mul_def column_def entry_def adjugate4_def det4_def
        identity4_def Let_def algebra_simps)
qed

lemma adjugate4_np_dot:
  "np_dot (adjugate4 M) M = scale_mat4 (det4 M) identity4"
proof -
  obtain a00 a01 a02 a03 a10 a11 a12 a13 a20 a21 a22 a23 a30 a31 a32 a33 where
    M: "M = ((a00, a01, a02, a03), (a10, a11, a12, a13), (a20, a21, a22, a23),
      (a30, a31, a32, a33))"
    by (rule mat4_cases)
  show ?thesis
    unfolding M
    by (simp add: np_dot_def mat_row_mul_def column_def entry_def adjugate4_def det4_def
        identity4_def Let_def algebra_simps)
qed

lemma np_dot_scale_right: "np_dot A (scale_mat4 k B) = scale_mat4 k (np_dot A B)"
proof -
  obtain a00 a01 a02 a03 a10 a11 a12 a13 a20 a21 a22 a23 a30 a31 a32 a33 where
    A: "A = ((a00, a01, a02, a03), (a10, a11, a12, a13), (a20, a21, a22, a23),
      (a30, a31, a32, a33))"
    by (rule mat4_cases)
  obtain b00 b01 b02 b03 b10 b11 b12 b13 b20 b21 b22 b23 b30 b31 b32 b33 where
    B: "B = ((b00, b01, b02, b03), (b10, b11, b12, b13), (b20, b21, b22, b23),
      (b30, b31, b32, b33))"
    by (rule mat4_cases)
  show ?thesis
    unfolding A B
    by (simp add: np_dot_def mat_row_mul_def column_def entry_def algebra_simps)
qed

lemma np_dot_scale_left: "np_dot (scale_mat4 k A) B = scale_mat4 k (np_dot A B)"
proof -
  obtain a00 a01 a02 a03 a10 a11 a12 a13 a20 a21 a22 a23 a30 a31 a32 a33 where
    A: "A = ((a00, a01, a02, a03), (a10, a11, a12, a13), (a20, a21, a22, a23),
      (a30, a31, a32, a33))"
    by (rule mat4_cases)
  obtain b00 b01 b02 b03 b10 b11 b12 b13 b20 b21 b22 b23 b30 b31 b32 b33 where
    B: "B = ((b00, b01, b02, b03), (b10, b11, b12, b13), (b20, b21, b22, b23),
      (b30, b31, b32, b33))"
    by (rule mat4_cases)
  show ?thesis
    unfolding A B
    by (simp add: np_dot_def mat_row_mul_def column_def entry_def algebra_simps)
qed

lemma scale_scale_identity: "d \<noteq> 0 \<Longrightarrow> scale_mat4 (1 / d) (scale_mat4 d identity4) = identity4"
  by (simp add: identity4_def)

lemma linalg_inv_is_inverse:
  assumes "det4 M \<noteq> 0"
  shows "linalg_inv M = Inr (scale_mat4 (1 / det4 M) (adjugate4 M))"
    and "np_dot M (scale_mat4 (1 / det4 M) (adjugate4 M)) = identity4"
    and "np_dot (scale_mat4 (1 / det4 M) (adjugate4 M)) M = identity4"
proof -
  show "linalg_inv M = Inr (scale_mat4 (1 / det4 M) (adjugate4 M))"
    using assms by (simp add: linalg_inv_def)
  show "np_dot M (scale_mat4 (1 / det4 M) (adjugate4 M)) = identity4"
    by (simp only: np_dot_scale_right np_dot_adjugate4 scale_scale_identity[OF assms])
  show "np_dot (scale_mat4 (1 / det4 M) (adjugate4 M)) M = identity4"
    by (simp only: np_dot_scale_left adjugate4_np_dot scale_scale_identity[OF assms])
qed

lemma det4_rigid:
  fixes sy cy sr cr sp cp lx ly lz :: real
  assumes "sy\<^sup>2 + cy\<^sup>2 = 1" "sr\<^sup>2 + cr\<^sup>2 = 1" "sp\<^sup>2 + cp\<^sup>2 = 1"
  shows "(cp * cy * (sy * sp * sr + cy * cr) - sy * cp * (cy * sp * sr - sy * cr)) * (cp * cr)
    - (cp * cy * (- sy * sp * cr + cy * sr) - sy * cp * (- cy * sp * cr - sy * sr)) * (- cp * sr)
    + ((cy * sp * sr - sy * cr) * (- sy * sp * cr + cy * sr)
        - (sy * sp * sr + cy * cr) * (- cy * sp * cr - sy * sr)) * sp = 1"
  using assms by algebra

lemma det4_create_matrix: "det4 (create_matrix loc rot) = 1"
proof -
  have t: "(sin (radians (yaw rot)))\<^sup>2 + (cos (radians (yaw rot)))\<^sup>2 = 1"
    "(sin (radians (roll rot)))\<^sup>2 + (cos (radians (roll rot)))\<^sup>2 = 1"
    "(sin (radians (pitch rot)))\<^sup>2 + (cos (radians (pitch rot)))\<^sup>2 = 1"
    by simp_all
  show ?thesis
    using det4_rigid[OF t] by (simp add: det4_def create_matrix_def Let_def)
qed

subsection \<open>The lazy matrix of a Transform\<close>

lemma create_matrix_axis_aligned:
  "create_matrix (Location_init a b c) (Rotation_init 0 0 0) =
     ((1, 0, 0, a), (0, 1, 0, b), (0, 0, 1, c), (0, 0, 0, 1))"
  by (simp add: create_matrix_def Location_init_def Rotation_init_def radians_def)

lemma origin_transform_constructed:
  "Transform_init None None None = Inr (origin_transform\<lparr>inv_matrix := None\<rparr>)"
proof -
  have m: "create_matrix (Location_init 0 0 0) (Rotation_init 0 0 0) = identity4"
    by (simp add: create_matrix_axis_aligned identity4_def)
  show ?thesis
    unfolding Transform_init_def origin_transform_def option.case Let_def m
    by (simp add: identity4_def entry_def Vector3D_copy_def Rotation_copy_def
        Location_init_def Rotation_init_def)
qed

lemma det4_identity4: "det4 identity4 = 1"
  by (simp add: det4_def identity4_def)

lemma adjugate4_identity4: "adjugate4 identity4 = identity4"
  by (simp add: adjugate4_def identity4_def Let_def)

lemma linalg_inv_identity4: "linalg_inv identity4 = Inr identity4"
  unfolding linalg_inv_def det4_identity4 adjugate4_identity4
  by (simp add: identity4_def)

lemma origin_transform_cached:
  "get_matrix (origin_transform\<lparr>inv_matrix := None\<rparr>) True = (Inr identity4, origin_transform)"
  by (simp add: get_matrix_def origin_transform_def linalg_inv_identity4)

text \<open>
  C1. When the snapshot differs from the current location or rotation, \<open>get_matrix\<close>
  returns the matrix built from the current location and rotation, stores it, takes a new
  snapshot and drops the cached inverse; the next \<open>get_matrix\<close> with the inverse requested
  returns a matrix that is the two-sided inverse of the rebuilt one. When the snapshot
  agrees with the current values, the stored matrix is returned and nothing changes.
\<close>

theorem get_matrix_rebuilds_when_stale:
  "(snap_location t \<noteq> location t \<or> snap_rotation t \<noteq> rotation t \<longrightarrow>
      (case get_matrix t False of
         (res, t') \<Rightarrow>
           res = Inr (create_matrix (location t) (rotation t))
           \<and> matrix t' = create_matrix (location t) (rotation t)
           \<and> inv_matrix t' = None
           \<and> snap_location t' = location t \<and> snap_rotation t' = rotation t
           \<and> location t' = location t \<and> rotation t' = rotation t
           \<and> (\<exists>N. fst (get_matrix t' True) = Inr N
                 \<and> np_dot N (create_matrix (location t) (rotation t)) = identity4
                 \<and> np_dot (create_matrix (location t) (rotation t)) N = identity4)))
   \<and> (snap_location t = location t \<and> snap_rotation t = rotation t \<longrightarrow>
        get_matrix t False = (Inr (matrix t), t))"
proof (intro conjI impI)
  assume stale: "snap_location t \<noteq> location t \<or> snap_rotation t \<noteq> rotation t"
  let ?M = "create_matrix (location t) (rotation t)"
  let ?t1 = "t\<lparr>snap_location := Vector3D_copy (location t),
      snap_rotation := Rotation_copy (rotation t), matrix := ?M, inv_matrix := None\<rparr>"
  have g: "get_matrix t False = (Inr ?M, ?t1)"
    using stale by (simp add: get_matrix_def)
  have d: "det4 ?M \<noteq> 0" by (simp add: det4_create_matrix)
  note inv = linalg_inv_is_inverse[OF d]
  have fresh: "\<not> (snap_location ?t1 \<noteq> location ?t1 \<or> snap_rotation ?t1 \<noteq> rotation ?t1)"
    by (simp add: Vector3D_copy_def Rotation_copy_def)
  have "fst (get_matrix ?t1 True) = Inr (scale_mat4 (1 / det4 ?M) (adjugate4 ?M))"
    unfolding get_matrix_def Let_def using fresh inv(1) by simp
  then have "\<exists>N. fst (get_matrix ?t1 True) = Inr N \<and> np_dot N ?M = identity4
      \<and> np_dot ?M N = identity4"
    using inv(2,3) by blast
  then show "case get_matrix t False of
         (res, t') \<Rightarrow>
           res = Inr ?M \<and> matrix t' = ?M \<and> inv_matrix t' = None
           \<and> snap_location t' = location t \<and> snap_rotation t' = rotation t
           \<and> location t' = location t \<and> rotation t' = rotation t
           \<and> (\<exists>N. fst (get_matrix t' True) = Inr N \<and> np_dot N ?M = identity4
                 \<and> np_dot ?M N = identity4)"
    unfolding g by (simp add: Vector3D_copy_def Rotation_copy_def)
next
  assume "snap_location t = location t \<and> snap_rotation t = rotation t"
  then show "get_matrix t False = (Inr (matrix t), t)"
    by (simp add: get_matrix_def)
qed

text \<open>
  The example: the transform at the origin with its location overwritten by
  \<open>(1, 2, 3)\<close>, its matrix and cached inverse still those of the origin.
\<close>

lemma det4_axis_aligned: "det4 ((1, 0, 0, a), (0, 1, 0, b), (0, 0, 1, c), (0, 0, 0, 1)) = 1"
  by (simp add: det4_def)

lemma adjugate4_axis_aligned:
  "adjugate4 ((1, 0, 0, a), (0, 1, 0, b), (0, 0, 1, c), (0, 0, 0, 1)) =
     ((1, 0, 0, - a), (0, 1, 0, - b), (0, 0, 1, - c), (0, 0, 0, 1))"
  by (simp add: adjugate4_def Let_def)

lemma linalg_inv_axis_aligned:
  "linalg_inv ((1, 0, 0, a), (0, 1, 0, b), (0, 0, 1, c), (0, 0, 0, 1)) =
     Inr ((1, 0, 0, - a), (0, 1, 0, - b), (0, 0, 1, - c), (0, 0, 0, 1))"
  unfolding linalg_inv_def det4_axis_aligned adjugate4_axis_aligned by simp

theorem get_matrix_rebuilds_when_stale_witness:
  "(snap_location (origin_transform\<lparr>location := Location_init 1 2 3\<rparr>)
      \<noteq> location (origin_transform\<lparr>location := Location_init 1 2 3\<rparr>)
    \<and> fst (get_matrix (origin_transform\<lparr>location := Location_init 1 2 3\<rparr>) False)
      = Inr ((1, 0, 0, 1), (0, 1, 0, 2), (0, 0, 1, 3), (0, 0, 0, 1))
    \<and> inv_matrix (snd (get_matrix (origin_transform\<lparr>location := Location_init 1 2 3\<rparr>) False))
      = None
    \<and> fst (get_matrix
          (snd (get_matrix (origin_transform\<lparr>location := Location_init 1 2 3\<rparr>) False)) True)
      = Inr ((1, 0, 0, - 1), (0, 1, 0, - 2), (0, 0, 1, - 3), (0, 0, 0, 1)))
   \<and> (snap_location origin_transform = location origin_transform
    \<and> snap_rotation origin_transform = rotation origin_transform
    \<and> get_matrix origin_transform False = (Inr identity4, origin_transform))"
proof -
  let ?t = "origin_transform\<lparr>location := Location_init 1 2 3\<rparr>"
  let ?M = "((1, 0, 0, 1), (0, 1, 0, 2), (0, 0, 1, 3), (0, 0, 0, 1)) :: mat4"
  have stale: "snap_location ?t \<noteq> location ?t"
    by (simp add: origin_transform_def Location_init_def)
  have M: "create_matrix (location ?t) (rotation ?t) = ?M"
    by (simp add: origin_transform_def create_matrix_axis_aligned)
  have fresh: "snap_location origin_transform = location origin_transform"
    "snap_rotation origin_transform = rotation origin_transform"
    by (simp_all add: origin_transform_def)
  have mo: "matrix origin_transform = identity4" by (simp add: origin_transform_def)
  obtain res t' where g: "get_matrix ?t False = (res, t')" by (cases "get_matrix ?t False")
  from get_matrix_rebuilds_when_stale[of ?t] stale g M
  have r: "res = Inr ?M" "matrix t' = ?M" "inv_matrix t' = None"
    "snap_location t' = location ?t" "snap_rotation t' = rotation ?t"
    "location t' = location ?t" "rotation t' = rotation ?t"
    by simp_all
  have "get_matrix t' True = (Inr ((1, 0, 0, - 1), (0, 1, 0, - 2), (0, 0, 1, - 3), (0, 0, 0, 1)),
      t'\<lparr>inv_matrix := Some ((1, 0, 0, - 1), (0, 1, 0, - 2), (0, 0, 1, - 3), (0, 0, 0, 1))\<rparr>)"
    unfolding get_matrix_def Let_def using r by (simp add: linalg_inv_axis_aligned)
  then have i: "fst (get_matrix t' True)
      = Inr ((1, 0, 0, - 1), (0, 1, 0, - 2), (0, 0, 1, - 3), (0, 0, 0, 1))"
    by simp
  from get_matrix_rebuilds_when_stale[of origin_transform] fresh mo
  have u: "get_matrix origin_transform False = (Inr identity4, origin_transform)" by simp
  show ?thesis
    using stale r(1,3) i fresh u unfolding g by simp
qed

subsection \<open>The conversion to 32-bit floats\<close>

lemma round_half_even_bounds:
  "real_of_int (round_half_even y) \<le> y + 1 / 2" "y - 1 / 2 \<le> real_of_int (round_half_even y)"
  by (auto simp: round_half_even_def Let_def) linarith+

lemma round_half_even_of_int: "round_half_even (real_of_int n) = n"
  by (simp add: round_half_even_def)

lemma round_half_even_abs_le:
  assumes "\<bar>y\<bar> < real_of_int N"
  shows "\<bar>round_half_even y\<bar> \<le> N"
proof -
  have "y < real_of_int N" "- real_of_int N < y" using assms by linarith+
  then have "\<lfloor>y\<rfloor> < N" "- N \<le> \<lfloor>y\<rfloor>"
    by (simp_all add: floor_less_iff le_floor_iff) 
  moreover have "round_half_even y = \<lfloor>y\<rfloor> \<or> round_half_even y = \<lfloor>y\<rfloor> + 1"
    by (simp add: round_half_even_def Let_def)
  ultimately show ?thesis by linarith
qed

lemma binade:
  assumes "x \<noteq> 0"
  shows "2 powr real_of_int \<lfloor>log 2 \<bar>x\<bar>\<rfloor> \<le> \<bar>x\<bar>"
    and "\<bar>x\<bar> < 2 powr real_of_int (\<lfloor>log 2 \<bar>x\<bar>\<rfloor> + 1)"
proof -
  have "0 < \<bar>x\<bar>" using assms by simp
  then have "2 powr real_of_int \<lfloor>log 2 \<bar>x\<bar>\<rfloor> \<le> \<bar>x\<bar>
      \<and> \<bar>x\<bar> < 2 powr real_of_int (\<lfloor>log 2 \<bar>x\<bar>\<rfloor> + 1)"
    using floor_log_eq_powr_iff[of "\<bar>x\<bar>" 2 "\<lfloor>log 2 \<bar>x\<bar>\<rfloor>"] by simp
  then show "2 powr real_of_int \<lfloor>log 2 \<bar>x\<bar>\<rfloor> \<le> \<bar>x\<bar>"
    and "\<bar>x\<bar> < 2 powr real_of_int (\<lfloor>log 2 \<bar>x\<bar>\<rfloor> + 1)" by simp_all
qed

lemma significand_below_2_24:
  assumes "x \<noteq> 0"
  shows "\<bar>x / float32_ulp x\<bar> < 2 ^ 24"
proof -
  define k where "k = \<lfloor>log 2 \<bar>x\<bar>\<rfloor>"
  define E where "E = max (k - 23) (- 149)"
  have u: "float32_ulp x = 2 powr real_of_int E"
    by (simp add: float32_ulp_def E_def k_def)
  have "\<bar>x\<bar> < 2 powr real_of_int (k + 1)"
    unfolding k_def by (rule binade(2)[OF assms])
  also have "\<dots> \<le> 2 powr real_of_int (E + 24)"
    by (simp add: E_def)
  also have "\<dots> = 2 powr real_of_int E * 2 ^ 24"
    by (simp add: powr_add)
  finally have "\<bar>x\<bar> < 2 powr real_of_int E * 2 ^ 24" .
  then show ?thesis
    unfolding u by (simp add: field_simps)
qed

text \<open>Every converted number lies on the grid of the 32-bit floats.\<close>

lemma astype_float32_single_precision: "single_precision (astype_float32 x)"
proof (cases "x = 0")
  case True
  then have z: "astype_float32 x = 0" by (simp add: astype_float32_def)
  have "\<bar>0::int\<bar> < 2 ^ 24 \<and> - 149 \<le> (0::int)
      \<and> (0::real) = real_of_int 0 * 2 powr real_of_int 0"
    by simp
  then show ?thesis
    unfolding single_precision_def z by blast
next
  case False
  define E where "E = max (\<lfloor>log 2 \<bar>x\<bar>\<rfloor> - 23) (- 149)"
  define r where "r = round_half_even (x / float32_ulp x)"
  have u: "float32_ulp x = 2 powr real_of_int E" by (simp add: float32_ulp_def E_def)
  have E: "- 149 \<le> E" by (simp add: E_def)
  have v: "astype_float32 x = real_of_int r * 2 powr real_of_int E"
    using False by (simp add: astype_float32_def r_def u)
  have "\<bar>x / float32_ulp x\<bar> < real_of_int (2 ^ 24)"
    using significand_below_2_24[OF False] by simp
  then have r: "\<bar>r\<bar> \<le> 2 ^ 24" unfolding r_def by (rule round_half_even_abs_le)
  show ?thesis
  proof (cases "\<bar>r\<bar> < 2 ^ 24")
    case True
    with E v show ?thesis unfolding single_precision_def by blast
  next
    case False
    with r have "r = 2 ^ 24 \<or> r = - (2 ^ 24)" by linarith
    then obtain m :: int where m: "r = 2 * m" "\<bar>m\<bar> < 2 ^ 24" by auto
    have "2 powr real_of_int (E + 1) = 2 * 2 powr real_of_int E"
      by (simp add: powr_add)
    then have "astype_float32 x = real_of_int m * 2 powr real_of_int (E + 1)"
      unfolding v m(1) by simp
    moreover have "- 149 \<le> E + 1" using E by simp
    ultimately show ?thesis unfolding single_precision_def using m(2) by blast
  qed
qed

text \<open>The conversion leaves the numbers of the grid as they are.\<close>

lemma astype_float32_fixes_single_precision:
  assumes "single_precision x"
  shows "astype_float32 x = x"
proof (cases "x = 0")
  case True
  then show ?thesis by (simp add: astype_float32_def)
next
  case False
  obtain m e :: int where me: "\<bar>m\<bar> < 2 ^ 24" "- 149 \<le> e" "x = real_of_int m * 2 powr real_of_int e"
    using assms unfolding single_precision_def by blast
  define k where "k = \<lfloor>log 2 \<bar>x\<bar>\<rfloor>"
  define E where "E = max (k - 23) (- 149)"
  have u: "float32_ulp x = 2 powr real_of_int E" by (simp add: float32_ulp_def E_def k_def)
  have "real_of_int \<bar>m\<bar> < real_of_int (2 ^ 24)"
    using me(1) by (simp only: of_int_less_iff)
  then have "\<bar>real_of_int m\<bar> < 2 ^ 24" by simp
  then have "\<bar>x\<bar> < 2 ^ 24 * 2 powr real_of_int e"
    unfolding me(3) by (simp add: abs_mult)
  also have "\<dots> = 2 powr real_of_int (e + 24)" by (simp add: powr_add)
  finally have "\<bar>x\<bar> < 2 powr real_of_int (e + 24)" .
  moreover have "2 powr real_of_int k \<le> \<bar>x\<bar>" unfolding k_def by (rule binade(1)[OF False])
  ultimately have "2 powr real_of_int k < 2 powr real_of_int (e + 24)" by linarith
  then have "k < e + 24" by simp
  then have Ee: "E \<le> e" using me(2) by (simp add: E_def)
  have "2 powr real_of_int e = 2 powr real_of_int E * 2 powr real_of_int (e - E)"
    by (simp add: powr_add[symmetric])
  also have "2 powr real_of_int (e - E) = 2 ^ nat (e - E)"
    using Ee by (simp add: powr_realpow[symmetric])
  finally have s: "2 powr real_of_int e = 2 powr real_of_int E * 2 ^ nat (e - E)" .
  have xs: "x = real_of_int (m * 2 ^ nat (e - E)) * 2 powr real_of_int E"
    unfolding me(3) s by simp
  have "x / float32_ulp x = x / 2 powr real_of_int E" by (simp only: u)
  also have "\<dots> = real_of_int (m * 2 ^ nat (e - E))"
    by (subst xs) simp
  finally have "round_half_even (x / float32_ulp x) = m * 2 ^ nat (e - E)"
    by (simp only: round_half_even_of_int)
  then have "astype_float32 x = real_of_int (m * 2 ^ nat (e - E)) * 2 powr real_of_int E"
    using False by (simp add: astype_float32_def u)
  then show ?thesis using xs by simp
qed

lemma single_precision_of_int: "\<bar>n\<bar> < 2 ^ 24 \<Longrightarrow> single_precision (real_of_int n)"
proof -
  assume "\<bar>n\<bar> < 2 ^ 24"
  moreover have "real_of_int n = real_of_int n * 2 powr real_of_int 0" by simp
  moreover have "- 149 \<le> (0::int)" by simp
  ultimately show ?thesis unfolding single_precision_def by blast
qed

lemma astype_float32_of_int: "\<bar>n\<bar> < 2 ^ 24 \<Longrightarrow> astype_float32 (real_of_int n) = real_of_int n"
  by (rule astype_float32_fixes_single_precision) (rule single_precision_of_int)

text \<open>
  The integer \<open>2 ^ 24 + 1\<close> is the first that 24 bits cannot hold: it is converted to
  \<open>2 ^ 24\<close>.
\<close>

lemma astype_float32_2_24_plus_1: "astype_float32 16777217 = 16777216"
proof -
  have "\<lfloor>log 2 \<bar>16777217::real\<bar>\<rfloor> = 24"
    by (simp add: floor_log_eq_powr_iff)
  then have u: "float32_ulp 16777217 = 2" by (simp add: float32_ulp_def)
  have f: "\<lfloor>16777217 / 2 :: real\<rfloor> = 8388608" by linarith
  have "round_half_even (16777217 / 2) = 8388608"
    by (simp add: round_half_even_def Let_def f)
  then show ?thesis by (simp add: astype_float32_def u)
qed

text \<open>
  The example of the docstrings: for a transform at \<open>(3, 0, 0)\<close> without rotation, the
  point \<open>(10, 0, 0)\<close> is mapped to \<open>(13, 0, 0)\<close>, and back to \<open>(7, 0, 0)\<close> by the inverse.
\<close>

lemma Transform_init_at_3:
  "Transform_init (Some (Location_init 3 0 0)) (Some (Rotation_init 0 0 0)) None =
     Inr \<lparr>location = Location_init 3 0 0, rotation = Rotation_init 0 0 0,
          matrix = ((1, 0, 0, 3), (0, 1, 0, 0), (0, 0, 1, 0), (0, 0, 0, 1)),
          forward_vector = Vector3D_init 1 0 0, inv_matrix = None,
          snap_location = Location_init 3 0 0, snap_rotation = Rotation_init 0 0 0\<rparr>"
proof -
  have m: "create_matrix (Location_init 3 0 0) (Rotation_init 0 0 0)
      = ((1, 0, 0, 3), (0, 1, 0, 0), (0, 0, 1, 0), (0, 0, 0, 1))"
    by (rule create_matrix_axis_aligned)
  show ?thesis
    unfolding Transform_init_def option.case Let_def m
    by (simp add: entry_def Vector3D_copy_def Rotation_copy_def Location_init_def
        Rotation_init_def)
qed

lemma docstring_transform_point:
  "\<exists>t. Transform_init (Some (Location_init 3 0 0)) (Some (Rotation_init 0 0 0)) None = Inr t
     \<and> fst (transform_point t (10, 0, 0)) = Inr (13, 0, 0)
     \<and> fst (inverse_transform_point t (10, 0, 0)) = Inr (7, 0, 0)"
proof -
  have c: "astype_float32 13 = 13" "astype_float32 7 = 7" "astype_float32 0 = 0"
    using astype_float32_of_int[of 13] astype_float32_of_int[of 7] astype_float32_of_int[of 0]
    by simp_all
  show ?thesis
    unfolding Transform_init_at_3
    by (simp add: transform_point_def inverse_transform_point_def get_matrix_def
        Transform__transform_def linalg_inv_axis_aligned c)
qed

subsection \<open>Composition\<close>

lemma np_dot_identity_right: "np_dot M identity4 = M"
proof -
  obtain a00 a01 a02 a03 a10 a11 a12 a13 a20 a21 a22 a23 a30 a31 a32 a33 where
    M: "M = ((a00, a01, a02, a03), (a10, a11, a12, a13), (a20, a21, a22, a23),
      (a30, a31, a32, a33))"
    by (rule mat4_cases)
  show ?thesis
    unfolding M by (simp add: np_dot_def mat_row_mul_def column_def entry_def identity4_def)
qed

lemma Transform_init_axis_aligned:
  "Transform_init None None (Some ((1, 0, 0, a), (0, 1, 0, b), (0, 0, 1, c), (0, 0, 0, 1))) =
     Inr \<lparr>location = Location_init a b c, rotation = Rotation_init 0 0 0,
          matrix = ((1, 0, 0, a), (0, 1, 0, b), (0, 0, 1, c), (0, 0, 0, 1)),
          forward_vector = Vector3D_init 1 0 0, inv_matrix = None,
          snap_location = Location_init a b c, snap_rotation = Rotation_init 0 0 0\<rparr>"
  by (simp add: Transform_init_def Let_def entry_def clip_def degrees_def Vector3D_init_def
      Vector3D_copy_def Rotation_copy_def Location_init_def Rotation_init_def)

text \<open>
  C2. \<open>Transform_mul\<close> multiplies the stored \<open>matrix\<close> fields and never asks
  \<open>get_matrix\<close> for them. For the transform at the origin whose location was overwritten
  by \<open>(1, 0, 0)\<close>, composed with the transform at the origin, it returns a transform
  located at \<open>(0, 0, 0)\<close>; the product of the matrices of the current locations and
  rotations gives a transform located at \<open>(1, 0, 0)\<close>.
\<close>

theorem mul_reads_stale_matrix:
  "(\<exists>t'. Transform_mul (origin_transform\<lparr>location := Location_init 1 0 0\<rparr>) origin_transform
        = Inr t' \<and> location t' = Location_init 0 0 0)
   \<and> (\<exists>t''. Transform_init None None
          (Some (np_dot (create_matrix (Location_init 1 0 0) (Rotation_init 0 0 0))
             (create_matrix (Location_init 0 0 0) (Rotation_init 0 0 0))))
        = Inr t'' \<and> location t'' = Location_init 1 0 0)"
proof -
  have m: "matrix (origin_transform\<lparr>location := Location_init 1 0 0\<rparr>) = identity4"
    "matrix origin_transform = identity4"
    by (simp_all add: origin_transform_def)
  have i: "identity4 = ((1, 0, 0, 0), (0, 1, 0, 0), (0, 0, 1, 0), (0, 0, 0, 1))"
    by (simp add: identity4_def)
  have a: "\<exists>t'. Transform_mul (origin_transform\<lparr>location := Location_init 1 0 0\<rparr>)
      origin_transform = Inr t' \<and> location t' = Location_init 0 0 0"
    unfolding Transform_mul_def m np_dot_identity_right
    by (subst i) (simp add: Transform_init_axis_aligned)
  have "create_matrix (Location_init 0 0 0) (Rotation_init 0 0 0) = identity4"
    by (simp add: create_matrix_axis_aligned identity4_def)
  then have b: "\<exists>t''. Transform_init None None
          (Some (np_dot (create_matrix (Location_init 1 0 0) (Rotation_init 0 0 0))
             (create_matrix (Location_init 0 0 0) (Rotation_init 0 0 0))))
        = Inr t'' \<and> location t'' = Location_init 1 0 0"
    by (simp add: np_dot_identity_right create_matrix_axis_aligned Transform_init_axis_aligned)
  from a b show ?thesis ..
qed

subsection \<open>Distance ahead\<close>

text \<open>
  The angle that \<open>get_angle\<close> returns is in radians, so it is below 90 whatever the
  vectors are, and the last test of \<open>is_within_distance_ahead\<close> always succeeds.
\<close>

lemma atan2_bounds: "- (2 * pi) < atan2 y x" "atan2 y x < 2 * pi"
proof -
  have "- (pi / 2) < arctan (y / x)" "arctan (y / x) < pi / 2"
    by (rule arctan_lbound, rule arctan_ubound)
  then show "- (2 * pi) < atan2 y x" "atan2 y x < 2 * pi"
    using pi_gt_zero by (auto simp: atan2_def)
qed

lemma get_angle_below_90: "get_angle a b < 90"
proof -
  have "atan2 (y2 a) (x2 a) - atan2 (y2 b) (x2 b) < 4 * pi"
    using atan2_bounds[of "y2 a" "x2 a"] atan2_bounds[of "y2 b" "x2 b"] by linarith
  moreover have "pi < 4" by (rule pi_less_4)
  ultimately show ?thesis
    using pi_gt_zero by (auto simp: get_angle_def Let_def)
qed

lemma is_within_distance_ahead_ignores_angle:
  "is_within_distance_ahead t dst max_distance =
     (snd (get_angle_and_magnitude t dst) < 1 / 1000
      \<or> snd (get_angle_and_magnitude t dst) \<le> max_distance)"
  using get_angle_below_90
  by (auto simp: is_within_distance_ahead_def get_angle_and_magnitude_def Let_def)

text \<open>
  C5. For the transform at the origin looking along the x axis and a target 50 units
  straight behind it, the angle is \<open>pi\<close> (180 degrees) and the distance is 50; with a
  maximal distance of 100 the source answers True, because it compares the angle in
  radians with 90.
\<close>

theorem target_behind_is_reported_ahead:
  "get_angle_and_magnitude origin_transform (Location_init (- 50) 0 0) = (pi, 50)
   \<and> is_within_distance_ahead origin_transform (Location_init (- 50) 0 0) 100"
proof -
  have s: "sqrt 2500 = 50"
  proof -
    have "sqrt 2500 = sqrt (50\<^sup>2)" by simp
    then show ?thesis by (simp only: real_sqrt_abs abs_numeral)
  qed
  have g: "get_angle_and_magnitude origin_transform (Location_init (- 50) 0 0) = (pi, 50)"
    by (simp add: get_angle_and_magnitude_def origin_transform_def Location_init_def
        Rotation_init_def as_vector_2D_def Vector2D_sub_def Vector2D_magnitude_def
        get_angle_def atan2_def radians_def Let_def s)
  have "pi < 90" using pi_less_4 by linarith
  then have "is_within_distance_ahead origin_transform (Location_init (- 50) 0 0) 100"
    by (simp add: is_within_distance_ahead_def g)
  with g show ?thesis ..
qed

subsection \<open>Containment in a bounding box\<close>

text \<open>
  C8. \<open>contains\<close> maps the point by the inverse matrix of the owner transform,
  subtracts the location of the box and compares each absolute coordinate with the
  extent (an exception of the inversion is passed on); the rotation of the box has no
  influence on the result.
\<close>

theorem contains_ignores_box_rotation:
  "contains b wp t =
     (case inverse_transform_point t (world_point_array wp) of
        (Inl e, t') \<Rightarrow> (Inl e, t')
      | (Inr (q0, q1, q2), t') \<Rightarrow>
          (Inr (\<bar>q0 - vx (bb_location b)\<bar> \<le> vx (extent b)
                \<and> \<bar>q1 - vy (bb_location b)\<bar> \<le> vy (extent b)
                \<and> \<bar>q2 - vz (bb_location b)\<bar> \<le> vz (extent b)), t'))
   \<and> contains (b\<lparr>bb_rotation := r\<rparr>) wp t = contains b wp t"
  by (simp add: contains_def as_numpy_array_def split: prod.splits sum.splits)

subsection \<open>Single precision of transformed points\<close>

text \<open>
  C10. The coordinates that \<open>transform_point\<close> and \<open>inverse_transform_point\<close> return
  are the coordinates of the matrix product after the conversion to 32-bit floats, and
  each of them has a significand of 24 bits, although locations, rotations and matrices
  are kept in full precision.
\<close>

theorem transform_point_single_precision:
  "(case get_matrix t False of
      (Inl e, t') \<Rightarrow> transform_point t p = (Inl e, t')
    | (Inr m, t') \<Rightarrow>
        (case apply_matrix m p of
           (a, b, c) \<Rightarrow>
             transform_point t p
               = (Inr (astype_float32 a, astype_float32 b, astype_float32 c), t')
             \<and> single_precision (astype_float32 a) \<and> single_precision (astype_float32 b)
             \<and> single_precision (astype_float32 c)))
   \<and> (case get_matrix t True of
      (Inl e, t') \<Rightarrow> inverse_transform_point t p = (Inl e, t')
    | (Inr m, t') \<Rightarrow>
        (case apply_matrix m p of
           (a, b, c) \<Rightarrow>
             inverse_transform_point t p
               = (Inr (astype_float32 a, astype_float32 b, astype_float32 c), t')
             \<and> single_precision (astype_float32 a) \<and> single_precision (astype_float32 b)
             \<and> single_precision (astype_float32 c)))"
  by (simp add: transform_point_def inverse_transform_point_def Transform__transform_def
      astype_float32_single_precision split: prod.splits sum.splits)

text \<open>
  An example that loses precision: the transform at \<open>(3, 0, 0)\<close> maps the point
  \<open>(16777214, 0, 0)\<close> to \<open>(16777217, 0, 0)\<close> in exact arithmetic; \<open>transform_point\<close>
  returns \<open>(16777216, 0, 0)\<close>.
\<close>

theorem transform_point_single_precision_witness:
  "\<exists>t. Transform_init (Some (Location_init 3 0 0)) (Some (Rotation_init 0 0 0)) None = Inr t
     \<and> fst (transform_point t (16777214, 0, 0)) = Inr (16777216, 0, 0)
     \<and> single_precision 16777216
     \<and> fst (inverse_transform_point t (10, 0, 0)) = Inr (7, 0, 0)"
proof -
  let ?M = "((1, 0, 0, 3), (0, 1, 0, 0), (0, 0, 1, 0), (0, 0, 0, 1)) :: mat4"
  let ?N = "((1, 0, 0, - 3), (0, 1, 0, 0), (0, 0, 1, 0), (0, 0, 0, 1)) :: mat4"
  let ?t = "\<lparr>location = Location_init 3 0 0, rotation = Rotation_init 0 0 0,
      matrix = ?M, forward_vector = Vector3D_init 1 0 0, inv_matrix = None,
      snap_location = Location_init 3 0 0, snap_rotation = Rotation_init 0 0 0\<rparr>"
  have c: "astype_float32 7 = 7" "astype_float32 0 = 0"
    using astype_float32_of_int[of 7] astype_float32_of_int[of 0] by simp_all
  have g: "get_matrix ?t False = (Inr ?M, ?t)"
    by (simp add: get_matrix_def)
  have gi: "get_matrix ?t True = (Inr ?N, ?t\<lparr>inv_matrix := Some ?N\<rparr>)"
    using linalg_inv_axis_aligned[of 3 0 0] by (simp add: get_matrix_def)
  have a: "apply_matrix ?M (16777214, 0, 0) = (16777217, 0, 0)" by simp
  have ai: "apply_matrix ?N (10, 0, 0) = (7, 0, 0)" by simp
  from transform_point_single_precision[of ?t "(16777214, 0, 0)"]
  have f: "fst (transform_point ?t (16777214, 0, 0)) = Inr (16777216, 0, 0)"
    and s: "single_precision 16777216"
    unfolding g a by (simp_all add: astype_float32_2_24_plus_1 c)
  from transform_point_single_precision[of ?t "(10, 0, 0)"]
  have i: "fst (inverse_transform_point ?t (10, 0, 0)) = Inr (7, 0, 0)"
    unfolding gi ai by (simp add: c)
  show ?thesis
    unfolding Transform_init_at_3 using f s i by simp
qed

end
